theory Spec2Isabelle
  imports Complex_Main
begin

section \<open>The monitoring MCP server: configuration, health probe, startup gate, transport\<close>

text \<open>
  A shallow embedding of \<^verbatim>\<open>mcp/src/config.ts\<close>, \<^verbatim>\<open>mcp/src/clickhouse.ts\<close>,
  \<^verbatim>\<open>mcp/src/tools/ping.ts\<close>, \<^verbatim>\<open>mcp/src/server.ts\<close> and \<^verbatim>\<open>mcp/src/index.ts\<close>.
  Promises that may reject and functions that may throw return \<open>exn + 'a\<close>
  (\<open>Inl\<close> the thrown value); effects on the outside (the backing store, the console,
  timers, the listener, the process) are recorded in an explicit world that every effectful
  function takes and returns.
\<close>

subsection \<open>JavaScript values the code relies on\<close>

text \<open>
  A JavaScript number: every finite double is a rational. The functions of the runtime
  and of the URL parser that the code calls through zod are not part of the repository;
  they are parameters of the model, collected in one record.
\<close>

datatype number = NaN | PosInfinity | NegInfinity | Finite rat

record js =
  js_Number :: "string \<Rightarrow> number"      \<comment> \<open>\<^verbatim>\<open>Number(s)\<close>, used by \<^verbatim>\<open>z.coerce.number()\<close>\<close>
  js_URL_parses :: "string \<Rightarrow> bool"     \<comment> \<open>\<^verbatim>\<open>new URL(s)\<close> does not throw, used by \<^verbatim>\<open>.url()\<close>\<close>
  js_String :: "number \<Rightarrow> string"      \<comment> \<open>a number inside a template literal\<close>

fun isInteger :: "number \<Rightarrow> bool" where
  "isInteger (Finite q) = (of_int \<lfloor>q\<rfloor> = q)"
| "isInteger _ = False"

fun positive :: "number \<Rightarrow> bool" where
  "positive (Finite q) = (0 < q)"
| "positive PosInfinity = True"
| "positive _ = False"

text \<open>\<^verbatim>\<open>x || undefined\<close> on a string or undefined: the empty string is the only falsy string.\<close>

fun or_undefined :: "string option \<Rightarrow> string option" where
  "or_undefined None = None"
| "or_undefined (Some s) = (if s = [] then None else Some s)"

subsection \<open>Configuration (config.ts)\<close>

record config =
  clickhouseUrl :: string
  mcpApiKey :: string
  mcpPort :: number

datatype issue_kind =
    Required                 \<comment> \<open>the value is undefined where a string is expected\<close>
  | InvalidUrl               \<comment> \<open>\<^verbatim>\<open>.url()\<close>\<close>
  | TooSmall string          \<comment> \<open>\<^verbatim>\<open>.min(1, message)\<close>\<close>
  | NotANumber               \<comment> \<open>the coerced value is NaN\<close>
  | NotInteger               \<comment> \<open>\<^verbatim>\<open>.int()\<close>\<close>
  | NotPositive              \<comment> \<open>\<^verbatim>\<open>.positive()\<close>\<close>

type_synonym issue = "string \<times> issue_kind"

datatype exn =
    ZodError "issue list"
  | Error string

type_synonym env = "string \<rightharpoonup> string"

text \<open>
  The three fields of \<^verbatim>\<open>configSchema\<close>. Each returns the issues it raises (none when the
  field is accepted) and the parsed value. \<^verbatim>\<open>.default(v)\<close> answers an undefined input
  with \<open>v\<close>; both defaults satisfy the checks of their field.
\<close>

definition clickhouseUrl_schema :: "js \<Rightarrow> string option \<Rightarrow> issue list \<times> string" where
  "clickhouseUrl_schema rt input =
     (case input of
        None \<Rightarrow> ([], ''http://localhost:8123'')
      | Some s \<Rightarrow> (if js_URL_parses rt s then [] else [(''clickhouseUrl'', InvalidUrl)], s))"

definition mcpApiKey_schema :: "string option \<Rightarrow> issue list \<times> string" where
  "mcpApiKey_schema input =
     (case input of
        None \<Rightarrow> ([(''mcpApiKey'', Required)], [])
      | Some s \<Rightarrow>
          (if 1 \<le> length s then [] else [(''mcpApiKey'', TooSmall ''MCP_API_KEY is required'')], s))"

definition mcpPort_schema :: "js \<Rightarrow> string option \<Rightarrow> issue list \<times> number" where
  "mcpPort_schema rt input =
     (case input of
        None \<Rightarrow> ([], Finite 3001)
      | Some s \<Rightarrow>
          (let x = js_Number rt s in
           if x = NaN then ([(''mcpPort'', NotANumber)], x)
           else ((if isInteger x then [] else [(''mcpPort'', NotInteger)]) @
                 (if positive x then [] else [(''mcpPort'', NotPositive)]), x)))"

text \<open>\<^verbatim>\<open>configSchema.parse\<close>: all issues of all fields are collected; any issue throws.\<close>

definition configSchema_parse ::
  "js \<Rightarrow> string option \<Rightarrow> string option \<Rightarrow> string option \<Rightarrow> exn + config" where
  "configSchema_parse rt url key port =
     (let (iu, u) = clickhouseUrl_schema rt url;
          (ik, k) = mcpApiKey_schema key;
          (ip, p) = mcpPort_schema rt port;
          issues = iu @ ik @ ip
      in if issues = [] then Inr \<lparr>clickhouseUrl = u, mcpApiKey = k, mcpPort = p\<rparr>
         else Inl (ZodError issues))"

definition loadConfig :: "js \<Rightarrow> env \<Rightarrow> exn + config" where
  "loadConfig rt env =
     configSchema_parse rt
       (or_undefined (env ''CLICKHOUSE_URL''))
       (env ''MCP_API_KEY'')
       (or_undefined (env ''MCP_PORT''))"

text \<open>The words of the specification about a configuration, for comparison with the code.\<close>

definition supplied :: "env \<Rightarrow> string \<Rightarrow> string option" where
  "supplied env name = (case env name of None \<Rightarrow> None | Some s \<Rightarrow> if s = [] then None else Some s)"

definition positive_integer :: "number \<Rightarrow> bool" where
  "positive_integer x = (case x of Finite q \<Rightarrow> 0 < q \<and> q \<in> \<int> | _ \<Rightarrow> False)"

definition secret_ok :: "env \<Rightarrow> bool" where
  "secret_ok env = (case env ''MCP_API_KEY'' of None \<Rightarrow> False | Some s \<Rightarrow> s \<noteq> [])"

definition url_ok :: "js \<Rightarrow> env \<Rightarrow> bool" where
  "url_ok rt env = (case supplied env ''CLICKHOUSE_URL'' of None \<Rightarrow> True | Some s \<Rightarrow> js_URL_parses rt s)"

definition port_ok :: "js \<Rightarrow> env \<Rightarrow> bool" where
  "port_ok rt env =
     (case supplied env ''MCP_PORT'' of None \<Rightarrow> True | Some s \<Rightarrow> positive_integer (js_Number rt s))"

subsection \<open>The world outside the process\<close>

text \<open>
  The result object of the client's native \<^verbatim>\<open>ping()\<close>; only \<^verbatim>\<open>success\<close> is read.
\<close>

record ping_result =
  success :: bool

datatype event =
    ClientPing "exn + ping_result"     \<comment> \<open>one round trip of \<^verbatim>\<open>client.ping()\<close> and how it settled\<close>
  | SetTimeout nat                     \<comment> \<open>an awaited \<^verbatim>\<open>setTimeout(r, ms)\<close>\<close>
  | ConsoleLog string
  | ConsoleError string "exn option"
  | StartHttpServer config
  | Dispatch string                    \<comment> \<open>a request body handed to the protocol layer\<close>
  | ProcessExit nat

text \<open>
  \<open>pings w n\<close> is how the \<open>n\<close>-th call of \<^verbatim>\<open>client.ping()\<close> settles (counted from 0),
  \<open>calls w\<close> the number of calls made so far, \<open>listen w\<close> whether binding the listener
  fails, \<open>now w\<close> what \<^verbatim>\<open>new Date().toISOString()\<close> returns, \<open>trace w\<close> the effects so
  far, oldest first.
\<close>

record world =
  pings :: "nat \<Rightarrow> exn + ping_result"
  calls :: nat
  listen :: "config \<Rightarrow> exn option"
  now :: string
  trace :: "event list"

definition emit :: "event \<Rightarrow> world \<Rightarrow> world" where
  "emit e w = w\<lparr>trace := trace w @ [e]\<rparr>"

definition console_log :: "string \<Rightarrow> world \<Rightarrow> world" where
  "console_log msg w = emit (ConsoleLog msg) w"

definition console_error :: "string \<Rightarrow> exn option \<Rightarrow> world \<Rightarrow> world" where
  "console_error msg err w = emit (ConsoleError msg err) w"

definition sleep :: "nat \<Rightarrow> world \<Rightarrow> world" where
  "sleep ms w = emit (SetTimeout ms) w"

definition process_exit :: "nat \<Rightarrow> world \<Rightarrow> world" where
  "process_exit code w = emit (ProcessExit code) w"

text \<open>The events a computation added to the trace of the world it started in.\<close>

definition events_since :: "world \<Rightarrow> world \<Rightarrow> event list" where
  "events_since w w' = drop (length (trace w)) (trace w')"

subsection \<open>Template literals\<close>

fun show_nat :: "nat \<Rightarrow> string" where
  "show_nat n =
     (if n < 10 then [''0123456789'' ! n]
      else show_nat (n div 10) @ [''0123456789'' ! (n mod 10)])"

declare show_nat.simps [simp del]

definition healthy_msg :: "nat \<Rightarrow> string" where
  "healthy_msg i = ''ClickHouse healthy after '' @ show_nat i @ '' attempt(s)''"

definition not_ready_msg :: "nat \<Rightarrow> nat \<Rightarrow> nat \<Rightarrow> string" where
  "not_ready_msg i maxAttempts delayMs =
     ''ClickHouse not ready (attempt '' @ show_nat i @ ''/'' @ show_nat maxAttempts @
     ''), retrying in '' @ show_nat delayMs @ ''ms...''"

definition not_reachable_msg :: "nat \<Rightarrow> string" where
  "not_reachable_msg maxAttempts =
     ''ClickHouse not reachable after '' @ show_nat maxAttempts @ '' attempts, exiting''"

definition listening_msg :: "js \<Rightarrow> config \<Rightarrow> string" where
  "listening_msg rt config = ''MCP server listening on port '' @ js_String rt (mcpPort config)"

subsection \<open>The backing-store client and the health probe (clickhouse.ts)\<close>

record clickhouse_client =
  client_url :: string

definition createClickHouseClient :: "config \<Rightarrow> clickhouse_client" where
  "createClickHouseClient config = \<lparr>client_url = clickhouseUrl config\<rparr>"

text \<open>The client's native \<^verbatim>\<open>ping()\<close>: one round trip, which resolves or rejects.\<close>

definition client_ping :: "clickhouse_client \<Rightarrow> world \<Rightarrow> (exn + ping_result) \<times> world" where
  "client_ping client w =
     (pings w (calls w), emit (ClientPing (pings w (calls w))) (w\<lparr>calls := Suc (calls w)\<rparr>))"

definition checkClickHouseHealth :: "clickhouse_client \<Rightarrow> world \<Rightarrow> (exn + bool) \<times> world" where
  "checkClickHouseHealth client w =
     (case client_ping client w of
        (Inr result, w') \<Rightarrow> (Inr (success result), w')
      | (Inl _, w') \<Rightarrow> (Inr False, w'))"

text \<open>What the probe returns when its round trip is the \<open>n\<close>-th call of the native ping.\<close>

definition nth_probe :: "clickhouse_client \<Rightarrow> world \<Rightarrow> nat \<Rightarrow> exn + bool" where
  "nth_probe client w n = fst (checkClickHouseHealth client (w\<lparr>calls := n\<rparr>))"

subsection \<open>The ping tool (tools/ping.ts) and the tool registry (server.ts)\<close>

record PingResult =
  status :: string
  clickhouse :: bool
  timestamp :: string

definition ping :: "clickhouse_client \<Rightarrow> world \<Rightarrow> (exn + PingResult) \<times> world" where
  "ping client w =
     (case checkClickHouseHealth client w of
        (Inl err, w') \<Rightarrow> (Inl err, w')
      | (Inr reachable, w') \<Rightarrow>
          (Inr \<lparr>status = (if reachable then ''ok'' else ''error''),
                clickhouse = reachable,
                timestamp = now w'\<rparr>, w'))"

record mcp_server =
  server_name :: string
  server_version :: string
  tools :: "(string \<times> string) list"
  tool_client :: clickhouse_client

definition createMcpServer :: "clickhouse_client \<Rightarrow> mcp_server" where
  "createMcpServer client =
     \<lparr>server_name = ''monitoring-mcp'', server_version = ''0.1.0'',
      tools = [(''ping'', ''Check MCP server and ClickHouse connectivity'')],
      tool_client = client\<rparr>"

text \<open>The handler registered for the tool; its text content is the result as JSON.\<close>

definition ping_tool :: "mcp_server \<Rightarrow> world \<Rightarrow> (exn + PingResult) \<times> world" where
  "ping_tool server w = ping (tool_client server) w"

subsection \<open>The transport (transport.ts)\<close>

record request =
  req_method :: string
  req_path :: string
  authorization :: "string option"
  req_body :: string

datatype body = NoBody | StatusBody string | ProtocolBody string

record response =
  status_code :: nat
  resp_body :: body

text \<open>
  Modelled from the spec: \<^verbatim>\<open>startHttpServer\<close> of \<^verbatim>\<open>mcp/src/transport.ts\<close>, which is
  not among the source files. It binds a listener to the configured port; binding may fail.
\<close>

definition startHttpServer :: "mcp_server \<Rightarrow> config \<Rightarrow> world \<Rightarrow> (exn + unit) \<times> world" where
  "startHttpServer server config w =
     (case listen w config of
        Some err \<Rightarrow> (Inl err, emit (StartHttpServer config) w)
      | None \<Rightarrow> (Inr (), emit (StartHttpServer config) w))"

text \<open>
  Modelled from the spec: the request handler of the listener that \<^verbatim>\<open>startHttpServer\<close> of
  \<^verbatim>\<open>mcp/src/transport.ts\<close> starts, which is not among the source files. The spec's state
  machine of one request: the liveness path answers \<open>200 {status: ok}\<close> without
  authentication; the protocol path compares the \<open>Authorization\<close> header with
  \<open>Bearer <secret>\<close> by exact string equality, answers \<open>401\<close> with an empty body when it
  is missing or different, and only otherwise hands the body to the protocol layer, whose
  result is the response. The protocol layer is the parameter \<open>protocol\<close>. The spec names
  no other route: the model gives no response there.
\<close>

definition handle_request ::
  "(string \<Rightarrow> world \<Rightarrow> string \<times> world) \<Rightarrow> config \<Rightarrow> request \<Rightarrow> world \<Rightarrow> response option \<times> world" where
  "handle_request protocol config req w =
     (if req_method req = ''GET'' \<and> req_path req = ''/health''
      then (Some \<lparr>status_code = 200, resp_body = StatusBody ''ok''\<rparr>, w)
      else if req_method req = ''POST'' \<and> req_path req = ''/mcp''
      then (if authorization req = Some (''Bearer '' @ mcpApiKey config)
            then (case protocol (req_body req) (emit (Dispatch (req_body req)) w) of
                    (out, w') \<Rightarrow> (Some \<lparr>status_code = 200, resp_body = ProtocolBody out\<rparr>, w'))
            else (Some \<lparr>status_code = 401, resp_body = NoBody\<rparr>, w))
      else (None, w))"

subsection \<open>Process start (index.ts)\<close>

text \<open>
  The \<^verbatim>\<open>for\<close> loop of \<^verbatim>\<open>main\<close>, entered with the loop variable \<open>i\<close> and the current
  value of \<^verbatim>\<open>healthy\<close>; \<^verbatim>\<open>maxAttempts\<close> and \<^verbatim>\<open>delayMs\<close> are the constants of \<^verbatim>\<open>main\<close>
  that the loop reads. It returns the final value of \<^verbatim>\<open>healthy\<close>.
\<close>

function for_loop ::
  "clickhouse_client \<Rightarrow> nat \<Rightarrow> nat \<Rightarrow> nat \<Rightarrow> bool \<Rightarrow> world \<Rightarrow> (exn + bool) \<times> world" where
  "for_loop client maxAttempts delayMs i healthy w =
     (if i \<le> maxAttempts then
        (case checkClickHouseHealth client w of
           (Inl err, w1) \<Rightarrow> (Inl err, w1)
         | (Inr healthy', w1) \<Rightarrow>
             if healthy' then (Inr healthy', console_log (healthy_msg i) w1)
             else if i < maxAttempts then
               for_loop client maxAttempts delayMs (i + 1) healthy'
                 (sleep delayMs (console_log (not_ready_msg i maxAttempts delayMs) w1))
             else for_loop client maxAttempts delayMs (i + 1) healthy' w1)
      else (Inr healthy, w))"
  by pat_completeness auto
termination
  by (relation "measure (\<lambda>(client, maxAttempts, delayMs, i, healthy, w). Suc maxAttempts - i)") auto

declare for_loop.simps [simp del]

datatype completion = Resolved | Rejected exn | Exited nat

definition main :: "js \<Rightarrow> env \<Rightarrow> world \<Rightarrow> completion \<times> world" where
  "main rt env w =
     (case loadConfig rt env of
        Inl err \<Rightarrow> (Rejected err, w)
      | Inr config \<Rightarrow>
          (let clickhouse = createClickHouseClient config;
               maxAttempts = 30;
               delayMs = 2000
           in case for_loop clickhouse maxAttempts delayMs 1 False w of
                (Inl err, w1) \<Rightarrow> (Rejected err, w1)
              | (Inr healthy, w1) \<Rightarrow>
                  if \<not> healthy
                  then (Exited 1,
                        process_exit 1 (console_error (not_reachable_msg maxAttempts) None w1))
                  else (let server = createMcpServer clickhouse
                        in case startHttpServer server config w1 of
                             (Inl err, w2) \<Rightarrow> (Rejected err, w2)
                           | (Inr _, w2) \<Rightarrow>
                               (Resolved, console_log (listening_msg rt config) w2))))"

text \<open>The module's top-level statement, \<^verbatim>\<open>main().catch(...)\<close>.\<close>

definition index_ts :: "js \<Rightarrow> env \<Rightarrow> world \<Rightarrow> completion \<times> world" where
  "index_ts rt env w =
     (case main rt env w of
        (Rejected err, w') \<Rightarrow>
          (Exited 1, process_exit 1 (console_error ''Fatal error:'' (Some err) w'))
      | (Resolved, w') \<Rightarrow> (Resolved, w')
      | (Exited code, w') \<Rightarrow> (Exited code, w'))"

subsection \<open>Reading a trace\<close>

text \<open>The probe attempts and the waits of a trace, in order.\<close>

datatype gate_step = Attempt | Wait nat

fun gate_steps :: "event list \<Rightarrow> gate_step list" where
  "gate_steps [] = []"
| "gate_steps (ClientPing _ # es) = Attempt # gate_steps es"
| "gate_steps (SetTimeout ms # es) = Wait ms # gate_steps es"
| "gate_steps (_ # es) = gate_steps es"

fun is_StartHttpServer :: "event \<Rightarrow> bool" where
  "is_StartHttpServer (StartHttpServer _) = True"
| "is_StartHttpServer _ = False"

fun is_ClientPing :: "event \<Rightarrow> bool" where
  "is_ClientPing (ClientPing _) = True"
| "is_ClientPing _ = False"

fun is_successful_ping :: "event \<Rightarrow> bool" where
  "is_successful_ping (ClientPing (Inr result)) = success result"
| "is_successful_ping _ = False"

subsection \<open>Concrete inputs, after the repository's tests\<close>

definition test_js :: js where
  "test_js =
     \<lparr>js_Number = (\<lambda>s. if s = ''4000'' then Finite 4000 else if s = ''0'' then Finite 0 else NaN),
      js_URL_parses = (\<lambda>s. s = ''http://clickhouse:8123''),
      js_String = (\<lambda>x. if x = Finite 3001 then ''3001'' else ''4000'')\<rparr>"

definition test_env :: env where
  "test_env =
     [''CLICKHOUSE_URL'' \<mapsto> ''http://clickhouse:8123'',
      ''MCP_API_KEY'' \<mapsto> ''test-key'',
      ''MCP_PORT'' \<mapsto> ''4000'']"

definition getTestConfig :: "number \<Rightarrow> config" where
  "getTestConfig port =
     \<lparr>clickhouseUrl = ''http://localhost:8123'', mcpApiKey = ''test-secret-key'', mcpPort = port\<rparr>"

definition test_config :: config where
  "test_config =
     \<lparr>clickhouseUrl = ''http://clickhouse:8123'', mcpApiKey = ''test-key'', mcpPort = Finite 4000\<rparr>"

definition test_client :: clickhouse_client where
  "test_client = createClickHouseClient (getTestConfig (Finite 0))"

definition test_world :: "(nat \<Rightarrow> exn + ping_result) \<Rightarrow> world" where
  "test_world p =
     \<lparr>pings = p, calls = 0, listen = (\<lambda>config. None), now = ''2026-01-01T00:00:00.000Z'',
      trace = []\<rparr>"

definition mockClient :: "bool \<Rightarrow> nat \<Rightarrow> exn + ping_result" where
  "mockClient s = (\<lambda>n. Inr \<lparr>success = s\<rparr>)"

definition refusingClient :: "nat \<Rightarrow> exn + ping_result" where
  "refusingClient = (\<lambda>n. Inl (Error ''Connection refused''))"

definition up_on_third :: "nat \<Rightarrow> exn + ping_result" where
  "up_on_third = (\<lambda>n. if n < 2 then Inr \<lparr>success = False\<rparr> else Inr \<lparr>success = True\<rparr>)"

text \<open>
  An environment that names the retry settings of the specification's scenario (three
  attempts, 5 ms apart) beside a valid configuration.
\<close>

definition env_with_retry_settings :: env where
  "env_with_retry_settings = test_env(''MAX_ATTEMPTS'' \<mapsto> ''3'', ''DELAY_MS'' \<mapsto> ''5'')"

definition post_mcp :: "string option \<Rightarrow> request" where
  "post_mcp header =
     \<lparr>req_method = ''POST'', req_path = ''/mcp'', authorization = header, req_body = ''{}''\<rparr>"

definition echo_protocol :: "string \<Rightarrow> world \<Rightarrow> string \<times> world" where
  "echo_protocol msg w = (msg, w)"

section \<open>Properties\<close>

subsection \<open>Configuration\<close>

lemma isInteger_iff: "isInteger x \<longleftrightarrow> (\<exists>n::int. x = Finite (of_int n))"
proof (cases x)
  case (Finite q)
  have "of_int \<lfloor>q\<rfloor> = q \<longleftrightarrow> (\<exists>n::int. q = of_int n)"
  proof
    assume "of_int \<lfloor>q\<rfloor> = q"
    then have "q = of_int \<lfloor>q\<rfloor>" by (rule sym)
    then show "\<exists>n::int. q = of_int n" ..
  next
    assume "\<exists>n::int. q = of_int n"
    then obtain n :: int where "q = of_int n" ..
    then show "of_int \<lfloor>q\<rfloor> = q" by simp
  qed
  with Finite show ?thesis by simp
qed simp_all

lemma positive_integer_iff: "positive_integer x \<longleftrightarrow> x \<noteq> NaN \<and> isInteger x \<and> positive x"
  by (cases x) (auto simp: positive_integer_def Ints_def)

lemma or_undefined_supplied: "or_undefined (env name) = supplied env name"
  by (cases "env name") (simp_all add: supplied_def)

lemma mcpPort_schema_accepts:
  "fst (mcpPort_schema rt input) = [] \<longleftrightarrow>
     (case input of None \<Rightarrow> True | Some s \<Rightarrow> positive_integer (js_Number rt s))"
  by (cases input) (auto simp: mcpPort_schema_def Let_def positive_integer_iff)

lemma clickhouseUrl_schema_accepts:
  "fst (clickhouseUrl_schema rt input) = [] \<longleftrightarrow>
     (case input of None \<Rightarrow> True | Some s \<Rightarrow> js_URL_parses rt s)"
  by (cases input) (auto simp: clickhouseUrl_schema_def)

lemma mcpApiKey_schema_accepts:
  "fst (mcpApiKey_schema input) = [] \<longleftrightarrow> (case input of None \<Rightarrow> False | Some s \<Rightarrow> s \<noteq> [])"
  by (cases input) (auto simp: mcpApiKey_schema_def Suc_le_eq)

lemma configSchema_parse_cases:
  "configSchema_parse rt url key port =
     (if fst (clickhouseUrl_schema rt url) = [] \<and> fst (mcpApiKey_schema key) = [] \<and>
         fst (mcpPort_schema rt port) = []
      then Inr \<lparr>clickhouseUrl = snd (clickhouseUrl_schema rt url),
                mcpApiKey = snd (mcpApiKey_schema key),
                mcpPort = snd (mcpPort_schema rt port)\<rparr>
      else Inl (ZodError (fst (clickhouseUrl_schema rt url) @ fst (mcpApiKey_schema key) @
                          fst (mcpPort_schema rt port))))"
  by (simp add: configSchema_parse_def split_beta)

lemma loadConfig_cases:
  "loadConfig rt env =
     (if secret_ok env \<and> url_ok rt env \<and> port_ok rt env
      then Inr \<lparr>clickhouseUrl = snd (clickhouseUrl_schema rt (supplied env ''CLICKHOUSE_URL'')),
                mcpApiKey = snd (mcpApiKey_schema (env ''MCP_API_KEY'')),
                mcpPort = snd (mcpPort_schema rt (supplied env ''MCP_PORT''))\<rparr>
      else Inl (ZodError (fst (clickhouseUrl_schema rt (supplied env ''CLICKHOUSE_URL'')) @
                          fst (mcpApiKey_schema (env ''MCP_API_KEY'')) @
                          fst (mcpPort_schema rt (supplied env ''MCP_PORT'')))))"
  unfolding loadConfig_def configSchema_parse_cases or_undefined_supplied
    mcpPort_schema_accepts clickhouseUrl_schema_accepts mcpApiKey_schema_accepts
    secret_ok_def url_ok_def port_ok_def
  by auto

text \<open>
  C7. For every environment, \<open>loadConfig\<close> returns a configuration if and only if
  \<open>MCP_API_KEY\<close> is a non-empty string, \<open>CLICKHOUSE_URL\<close>, if supplied, parses as an
  absolute URL, and \<open>MCP_PORT\<close>, if supplied, coerces to a positive integer. A variable
  is supplied when it is set to a non-empty value. A missing or empty secret always fails,
  and a failure is a thrown \<open>ZodError\<close> with at least one issue: there is a
  configuration or an error, never both.
\<close>

theorem loadConfig_succeeds_iff:
  "((\<exists>config. loadConfig rt env = Inr config) \<longleftrightarrow> secret_ok env \<and> url_ok rt env \<and> port_ok rt env)
   \<and> (env ''MCP_API_KEY'' = None \<or> env ''MCP_API_KEY'' = Some [] \<longrightarrow>
        (\<exists>issues. loadConfig rt env = Inl (ZodError issues)))
   \<and> ((\<exists>config. loadConfig rt env = Inr config) \<or>
        (\<exists>issues. issues \<noteq> [] \<and> loadConfig rt env = Inl (ZodError issues)))"
proof -
  let ?ok = "secret_ok env \<and> url_ok rt env \<and> port_ok rt env"
  let ?issues = "fst (clickhouseUrl_schema rt (supplied env ''CLICKHOUSE_URL'')) @
                 fst (mcpApiKey_schema (env ''MCP_API_KEY'')) @
                 fst (mcpPort_schema rt (supplied env ''MCP_PORT''))"
  have key: "env ''MCP_API_KEY'' \<noteq> None \<and> env ''MCP_API_KEY'' \<noteq> Some []" if ?ok
    using that by (auto simp: secret_ok_def split: option.splits)
  have issues: "?issues \<noteq> []" if "\<not> ?ok"
  proof
    assume "?issues = []"
    then have "fst (clickhouseUrl_schema rt (supplied env ''CLICKHOUSE_URL'')) = []"
      and "fst (mcpApiKey_schema (env ''MCP_API_KEY'')) = []"
      and "fst (mcpPort_schema rt (supplied env ''MCP_PORT'')) = []"
      by simp_all
    then have ?ok
      unfolding mcpPort_schema_accepts clickhouseUrl_schema_accepts mcpApiKey_schema_accepts
        secret_ok_def url_ok_def port_ok_def
      by simp
    with that show False ..
  qed
  show ?thesis
  proof (cases ?ok)
    case True
    then have "\<exists>config. loadConfig rt env = Inr config"
      by (simp add: loadConfig_cases)
    with True key show ?thesis by blast
  next
    case False
    then have "loadConfig rt env = Inl (ZodError ?issues)"
      by (simp add: loadConfig_cases)
    with False issues show ?thesis by auto
  qed
qed

text \<open>The theorem at the environment of the repository's test, and at an empty secret.\<close>

theorem loadConfig_succeeds_iff_witness:
  "secret_ok test_env \<and> url_ok test_js test_env \<and> port_ok test_js test_env
   \<and> loadConfig test_js test_env =
        Inr \<lparr>clickhouseUrl = ''http://clickhouse:8123'', mcpApiKey = ''test-key'',
             mcpPort = Finite 4000\<rparr>
   \<and> (test_env(''MCP_API_KEY'' \<mapsto> [])) ''MCP_API_KEY'' = Some []
   \<and> (\<exists>issues. loadConfig test_js (test_env(''MCP_API_KEY'' \<mapsto> [])) = Inl (ZodError issues))"
  using loadConfig_succeeds_iff [of test_js test_env]
    loadConfig_succeeds_iff [of test_js "test_env(''MCP_API_KEY'' \<mapsto> [])"]
  by (simp add: secret_ok_def url_ok_def port_ok_def supplied_def positive_integer_def
      test_env_def test_js_def loadConfig_def configSchema_parse_def clickhouseUrl_schema_def
      mcpApiKey_schema_def mcpPort_schema_def)

text \<open>
  C10. An empty \<open>CLICKHOUSE_URL\<close> or \<open>MCP_PORT\<close> is read as an unset one, so that with a
  valid secret the defaults \<open>http://localhost:8123\<close> and \<open>3001\<close> are used, whatever
  the URL parser and the number conversion say about the empty string; an empty
  \<open>MCP_API_KEY\<close> reaches the schema and fails its length check.
\<close>

theorem loadConfig_empty_values:
  "loadConfig rt (env(''CLICKHOUSE_URL'' \<mapsto> [])) = loadConfig rt (env(''CLICKHOUSE_URL'' := None))
   \<and> loadConfig rt (env(''MCP_PORT'' \<mapsto> [])) = loadConfig rt (env(''MCP_PORT'' := None))
   \<and> (key \<noteq> [] \<longrightarrow>
        loadConfig rt [''CLICKHOUSE_URL'' \<mapsto> [], ''MCP_API_KEY'' \<mapsto> key, ''MCP_PORT'' \<mapsto> []] =
          Inr \<lparr>clickhouseUrl = ''http://localhost:8123'', mcpApiKey = key, mcpPort = Finite 3001\<rparr>)
   \<and> (\<exists>issues. loadConfig rt (env(''MCP_API_KEY'' \<mapsto> [])) = Inl (ZodError issues)
         \<and> (''mcpApiKey'', TooSmall ''MCP_API_KEY is required'') \<in> set issues)"
  by (simp add: loadConfig_def configSchema_parse_def clickhouseUrl_schema_def
      mcpApiKey_schema_def mcpPort_schema_def split_beta Let_def Suc_le_eq)

text \<open>The theorem with a runtime that rejects the empty string as a URL and as a number.\<close>

theorem loadConfig_empty_values_witness:
  "loadConfig test_js [''CLICKHOUSE_URL'' \<mapsto> [], ''MCP_API_KEY'' \<mapsto> ''test-key'', ''MCP_PORT'' \<mapsto> []] =
     Inr \<lparr>clickhouseUrl = ''http://localhost:8123'', mcpApiKey = ''test-key'', mcpPort = Finite 3001\<rparr>
   \<and> js_Number test_js [] = NaN \<and> \<not> js_URL_parses test_js []"
  using loadConfig_empty_values [of test_js Map.empty "''test-key''"]
  by (simp add: test_js_def)

subsection \<open>The probe and the loop of the startup gate\<close>

lemma checkClickHouseHealth_eq:
  "checkClickHouseHealth client w =
     (Inr (case pings w (calls w) of Inr result \<Rightarrow> success result | Inl _ \<Rightarrow> False),
      emit (ClientPing (pings w (calls w))) (w\<lparr>calls := Suc (calls w)\<rparr>))"
  by (simp add: checkClickHouseHealth_def client_ping_def split: sum.splits)

lemma nth_probe_eq:
  "nth_probe client w n = Inr (case pings w n of Inr result \<Rightarrow> success result | Inl _ \<Rightarrow> False)"
  by (simp add: nth_probe_def checkClickHouseHealth_eq)

lemma upt_Suc_shift: "[0..<Suc n] = 0 # map Suc [0..<n]"
proof -
  have "[0..<Suc n] = 0 # [Suc 0..<Suc n]" by (rule upt_conv_Cons) simp
  then show ?thesis by (simp only: map_Suc_upt)
qed

lemma for_loop_succeeds:
  assumes "\<forall>j<n. nth_probe client w (calls w + j) = Inr False"
    and "nth_probe client w (calls w + n) = Inr True"
    and "i + n \<le> maxAttempts"
  shows "for_loop client maxAttempts delayMs i healthy w =
     (Inr True,
      w\<lparr>calls := calls w + Suc n,
        trace := trace w @
          concat (map (\<lambda>j. [ClientPing (pings w (calls w + j)),
                             ConsoleLog (not_ready_msg (i + j) maxAttempts delayMs),
                             SetTimeout delayMs]) [0..<n]) @
          [ClientPing (pings w (calls w + n)), ConsoleLog (healthy_msg (i + n))]\<rparr>)"
  using assms
proof (induction n arbitrary: i healthy w)
  case 0
  then show ?case
    by (subst for_loop.simps)
       (simp add: nth_probe_eq checkClickHouseHealth_eq emit_def console_log_def)
next
  case (Suc n)
  let ?w2 = "sleep delayMs (console_log (not_ready_msg i maxAttempts delayMs)
               (emit (ClientPing (pings w (calls w))) (w\<lparr>calls := Suc (calls w)\<rparr>)))"
  have first: "nth_probe client w (calls w) = Inr False"
    using Suc.prems(1) [rule_format, of 0] by simp
  have p: "pings ?w2 = pings w" and c: "calls ?w2 = Suc (calls w)"
    by (simp_all add: sleep_def console_log_def emit_def)
  have a1: "\<forall>j<n. nth_probe client ?w2 (calls ?w2 + j) = Inr False"
  proof (intro allI impI)
    fix j assume "j < n"
    then have "nth_probe client w (calls w + Suc j) = Inr False"
      using Suc.prems(1) [rule_format, of "Suc j"] by simp
    then show "nth_probe client ?w2 (calls ?w2 + j) = Inr False"
      by (simp add: nth_probe_eq p c)
  qed
  have a2: "nth_probe client ?w2 (calls ?w2 + n) = Inr True"
    using Suc.prems(2) by (simp add: nth_probe_eq p c)
  have a3: "Suc i + n \<le> maxAttempts" using Suc.prems(3) by simp
  have step: "for_loop client maxAttempts delayMs i healthy w =
              for_loop client maxAttempts delayMs (Suc i) False ?w2"
    using first Suc.prems(3)
    by (subst for_loop.simps) (simp add: nth_probe_eq checkClickHouseHealth_eq)
  show ?case
    unfolding step Suc.IH [OF a1 a2 a3] upt_Suc_shift
    by (simp add: p c sleep_def console_log_def emit_def comp_def)
qed


lemma for_loop_exhausts:
  assumes "\<forall>j<k. nth_probe client w (calls w + j) = Inr False"
    and "i + k = Suc maxAttempts"
  shows "for_loop client maxAttempts delayMs i healthy w =
     (Inr (if i \<le> maxAttempts then False else healthy),
      w\<lparr>calls := calls w + k,
        trace := trace w @
          concat (map (\<lambda>j. ClientPing (pings w (calls w + j)) #
                            (if i + j < maxAttempts
                             then [ConsoleLog (not_ready_msg (i + j) maxAttempts delayMs),
                                   SetTimeout delayMs]
                             else [])) [0..<k])\<rparr>)"
  using assms
proof (induction k arbitrary: i healthy w)
  case 0
  then show ?case
    by (subst for_loop.simps) simp
next
  case (Suc k)
  let ?w1 = "emit (ClientPing (pings w (calls w))) (w\<lparr>calls := Suc (calls w)\<rparr>)"
  let ?w2 = "if i < maxAttempts
             then sleep delayMs (console_log (not_ready_msg i maxAttempts delayMs) ?w1)
             else ?w1"
  have first: "nth_probe client w (calls w) = Inr False"
    using Suc.prems(1) [rule_format, of 0] by simp
  have p: "pings ?w2 = pings w" and c: "calls ?w2 = Suc (calls w)"
    by (simp_all add: sleep_def console_log_def emit_def)
  have a1: "\<forall>j<k. nth_probe client ?w2 (calls ?w2 + j) = Inr False"
  proof (intro allI impI)
    fix j assume "j < k"
    then have "nth_probe client w (calls w + Suc j) = Inr False"
      using Suc.prems(1) [rule_format, of "Suc j"] by simp
    then show "nth_probe client ?w2 (calls ?w2 + j) = Inr False"
      unfolding nth_probe_eq p c by simp
  qed
  have a2: "Suc i + k = Suc maxAttempts" using Suc.prems(2) by simp
  have le: "i \<le> maxAttempts" using Suc.prems(2) by simp
  have step: "for_loop client maxAttempts delayMs i healthy w =
              for_loop client maxAttempts delayMs (Suc i) False ?w2"
    using first le
    by (subst for_loop.simps) (simp add: nth_probe_eq checkClickHouseHealth_eq)
  have last: "k = 0 \<longleftrightarrow> \<not> i < maxAttempts" using Suc.prems(2) by auto
  show ?case
    unfolding step Suc.IH [OF a1 a2] upt_Suc_shift
    using le last
    by (cases "i < maxAttempts")
       (simp_all add: p c sleep_def console_log_def emit_def comp_def cong: if_cong)
qed

lemma gate_steps_append: "gate_steps (xs @ ys) = gate_steps xs @ gate_steps ys"
  by (induction xs rule: gate_steps.induct) simp_all

lemma gate_steps_concat_map:
  "gate_steps (concat (map f js)) = concat (map (\<lambda>j. gate_steps (f j)) js)"
  by (induction js) (simp_all add: gate_steps_append)

lemma concat_map_const: "concat (map (\<lambda>j. c) js) = concat (replicate (length js) c)"
  by (induction js) simp_all

lemma gate_steps_succeeds:
  "gate_steps (concat (map (\<lambda>j. [ClientPing (p j), ConsoleLog (m j), SetTimeout d]) [0..<n]) @
               [ClientPing q, ConsoleLog m']) =
   concat (replicate n [Attempt, Wait d]) @ [Attempt]"
  by (simp add: gate_steps_append gate_steps_concat_map concat_map_const)

lemma gate_steps_concat_const:
  "(\<And>j. j \<in> set js \<Longrightarrow> gate_steps (f j) = c) \<Longrightarrow>
   gate_steps (concat (map f js)) = concat (replicate (length js) c)"
  by (induction js) (simp_all add: gate_steps_append)

lemma for_loop_trace:
  "\<exists>evs b. for_loop client maxAttempts delayMs i healthy w =
       (Inr b, w\<lparr>calls := calls w + length (filter is_ClientPing evs), trace := trace w @ evs\<rparr>)
     \<and> length (filter is_ClientPing evs) \<le> Suc maxAttempts - i
     \<and> set (gate_steps evs) \<subseteq> {Attempt, Wait delayMs}
     \<and> (\<forall>e\<in>set evs. \<not> is_StartHttpServer e)
     \<and> (b \<longrightarrow> healthy \<or> (\<exists>e\<in>set evs. is_successful_ping e))"
proof (induction "Suc maxAttempts - i" arbitrary: i healthy w)
  case 0
  then have "\<not> i \<le> maxAttempts" by simp
  then have "for_loop client maxAttempts delayMs i healthy w = (Inr healthy, w)"
    by (subst for_loop.simps) simp
  then show ?case
    by (intro exI [of _ "[]"] exI [of _ healthy]) simp
next
  case (Suc k)
  then have le: "i \<le> maxAttempts" by simp
  let ?o = "pings w (calls w)"
  let ?w1 = "emit (ClientPing ?o) (w\<lparr>calls := Suc (calls w)\<rparr>)"
  have probe: "checkClickHouseHealth client w =
      (Inr (case ?o of Inr result \<Rightarrow> success result | Inl _ \<Rightarrow> False), ?w1)"
    by (rule checkClickHouseHealth_eq)
  show ?case
  proof (cases "case ?o of Inr result \<Rightarrow> success result | Inl _ \<Rightarrow> False")
    case True
    then have ok: "is_successful_ping (ClientPing ?o)"
      by (cases ?o) simp_all
    have "for_loop client maxAttempts delayMs i healthy w =
            (Inr True, console_log (healthy_msg i) ?w1)"
      using le True by (subst for_loop.simps) (simp add: probe)
    then show ?thesis
      using ok le
      by (intro exI [of _ "[ClientPing ?o, ConsoleLog (healthy_msg i)]"] exI [of _ True])
         (simp add: console_log_def emit_def)
  next
    case False
    let ?mid = "if i < maxAttempts
                then [ConsoleLog (not_ready_msg i maxAttempts delayMs), SetTimeout delayMs]
                else []"
    let ?w2 = "if i < maxAttempts
               then sleep delayMs (console_log (not_ready_msg i maxAttempts delayMs) ?w1)
               else ?w1"
    have step: "for_loop client maxAttempts delayMs i healthy w =
                for_loop client maxAttempts delayMs (Suc i) False ?w2"
      using le False by (subst for_loop.simps) (simp add: probe)
    have k: "k = Suc maxAttempts - Suc i" using Suc.hyps(2) by simp
    obtain evs b where
      run: "for_loop client maxAttempts delayMs (Suc i) False ?w2 =
              (Inr b, ?w2\<lparr>calls := calls ?w2 + length (filter is_ClientPing evs),
                          trace := trace ?w2 @ evs\<rparr>)"
      and bound: "length (filter is_ClientPing evs) \<le> Suc maxAttempts - Suc i"
      and steps: "set (gate_steps evs) \<subseteq> {Attempt, Wait delayMs}"
      and nostart: "\<forall>e\<in>set evs. \<not> is_StartHttpServer e"
      and good: "b \<longrightarrow> False \<or> (\<exists>e\<in>set evs. is_successful_ping e)"
      using Suc.hyps(1) [OF k, of False ?w2] by blast
    show ?thesis
    proof (intro exI [of _ "ClientPing ?o # ?mid @ evs"] exI [of _ b] conjI)
      show "for_loop client maxAttempts delayMs i healthy w =
        (Inr b, w\<lparr>calls := calls w + length (filter is_ClientPing (ClientPing ?o # ?mid @ evs)),
                  trace := trace w @ ClientPing ?o # ?mid @ evs\<rparr>)"
      proof -
        have "for_loop client maxAttempts delayMs i healthy w =
                (Inr b, ?w2\<lparr>calls := calls ?w2 + length (filter is_ClientPing evs),
                            trace := trace ?w2 @ evs\<rparr>)"
          using step run by (rule trans)
        then show ?thesis
          by (cases "i < maxAttempts") (simp_all add: sleep_def console_log_def emit_def)
      qed
      show "length (filter is_ClientPing (ClientPing ?o # ?mid @ evs)) \<le> Suc maxAttempts - i"
      proof -
        have "length (filter is_ClientPing ?mid) = 0" by simp
        then have "length (filter is_ClientPing (ClientPing ?o # ?mid @ evs)) =
                   Suc (length (filter is_ClientPing evs))"
          by (simp del: filter.simps add: filter.simps(2))
        then show ?thesis using bound le by linarith
      qed
      show "set (gate_steps (ClientPing ?o # ?mid @ evs)) \<subseteq> {Attempt, Wait delayMs}"
        using steps by (auto simp: gate_steps_append)
      show "\<forall>e\<in>set (ClientPing ?o # ?mid @ evs). \<not> is_StartHttpServer e"
        using nostart by auto
      show "b \<longrightarrow> healthy \<or> (\<exists>e\<in>set (ClientPing ?o # ?mid @ evs). is_successful_ping e)"
        using good by auto
    qed
  qed
qed



lemma events_since_append [simp]:
  "events_since w (w\<lparr>calls := c, trace := trace w @ evs\<rparr>) = evs"
  by (simp add: events_since_def)

lemma gate_steps_exhausts:
  assumes "i + k = Suc maxAttempts" and "0 < k"
  shows "gate_steps (concat (map (\<lambda>j. ClientPing (p j) #
                              (if i + j < maxAttempts then [ConsoleLog (m j), SetTimeout d] else []))
                       [0..<k])) =
   concat (replicate (k - 1) [Attempt, Wait d]) @ [Attempt]"
proof -
  obtain n where k: "k = Suc n" using assms(2) by (cases k) simp_all
  have "gate_steps (concat (map (\<lambda>j. ClientPing (p j) #
                              (if i + j < maxAttempts then [ConsoleLog (m j), SetTimeout d] else []))
                       [0..<n])) = concat (replicate (length [0..<n]) [Attempt, Wait d])"
    using assms(1) k by (intro gate_steps_concat_const) simp
  moreover have "\<not> i + n < maxAttempts" using assms(1) k by simp
  ultimately show ?thesis
    by (simp add: k gate_steps_append)
qed

lemma show_nat_30: "show_nat 30 = ''30''"
  by (simp add: show_nat.simps)

lemma not_reachable_msg_30:
  "not_reachable_msg 30 = ''ClickHouse not reachable after 30 attempts, exiting''"
  by (simp add: not_reachable_msg_def show_nat_30)

lemma main_config_error:
  "loadConfig rt env = Inl err \<Longrightarrow> main rt env w = (Rejected err, w)"
  by (simp add: main_def)

lemma main_gate_failed:
  "loadConfig rt env = Inr config \<Longrightarrow>
   for_loop (createClickHouseClient config) 30 2000 1 False w = (Inr False, w1) \<Longrightarrow>
   main rt env w = (Exited 1, process_exit 1 (console_error (not_reachable_msg 30) None w1))"
  by (simp add: main_def)

lemma main_gate_passed:
  "loadConfig rt env = Inr config \<Longrightarrow>
   for_loop (createClickHouseClient config) 30 2000 1 False w = (Inr True, w1) \<Longrightarrow>
   main rt env w =
     (case listen w1 config of
        Some err \<Rightarrow> (Rejected err, emit (StartHttpServer config) w1)
      | None \<Rightarrow> (Resolved, console_log (listening_msg rt config) (emit (StartHttpServer config) w1)))"
  by (simp add: main_def startHttpServer_def split: option.splits)

lemma loadConfig_test_env: "loadConfig test_js test_env = Inr test_config"
  by (simp add: test_env_def test_js_def test_config_def loadConfig_def configSchema_parse_def
      clickhouseUrl_schema_def mcpApiKey_schema_def mcpPort_schema_def)

subsection \<open>The health probe and the ping tool\<close>

text \<open>
  C3. For every client and every state of the outside, \<open>checkClickHouseHealth\<close> returns a
  boolean and never throws. It returns \<open>true\<close> exactly when the native ping resolves with
  \<open>success\<close> set; when the native ping rejects, with any error, or resolves without
  success, it returns \<open>false\<close>.
\<close>

theorem checkClickHouseHealth_never_throws:
  "(\<exists>b. fst (checkClickHouseHealth client w) = Inr b)
   \<and> (fst (checkClickHouseHealth client w) = Inr True \<longleftrightarrow>
        (\<exists>result. pings w (calls w) = Inr result \<and> success result))
   \<and> (\<forall>err. pings w (calls w) = Inl err \<longrightarrow> fst (checkClickHouseHealth client w) = Inr False)
   \<and> (\<forall>result. pings w (calls w) = Inr result \<and> \<not> success result \<longrightarrow>
        fst (checkClickHouseHealth client w) = Inr False)"
  by (cases "pings w (calls w)") (auto simp: checkClickHouseHealth_eq)

text \<open>The theorem at a client that refuses the connection and at the two mock clients.\<close>

theorem checkClickHouseHealth_never_throws_witness:
  "pings (test_world refusingClient) (calls (test_world refusingClient)) = Inl (Error ''Connection refused'')
   \<and> fst (checkClickHouseHealth test_client (test_world refusingClient)) = Inr False
   \<and> pings (test_world (mockClient False)) (calls (test_world (mockClient False))) = Inr \<lparr>success = False\<rparr>
   \<and> fst (checkClickHouseHealth test_client (test_world (mockClient False))) = Inr False
   \<and> fst (checkClickHouseHealth test_client (test_world (mockClient True))) = Inr True"
  using checkClickHouseHealth_never_throws [of test_client "test_world refusingClient"]
    checkClickHouseHealth_never_throws [of test_client "test_world (mockClient False)"]
    checkClickHouseHealth_never_throws [of test_client "test_world (mockClient True)"]
  by (simp add: test_world_def refusingClient_def mockClient_def)

text \<open>
  C4. For every outcome of the native ping, \<open>ping\<close> resolves to a result whose
  \<open>status\<close> is \<open>ok\<close> if and only if its \<open>clickhouse\<close> field is true; the status is
  \<open>ok\<close> or \<open>error\<close>, and both fields come from the one value the probe returned.
\<close>

theorem ping_status_iff_reachable:
  "\<exists>result w'. ping client w = (Inr result, w')
     \<and> (status result = ''ok'' \<longleftrightarrow> clickhouse result)
     \<and> (status result = ''ok'' \<or> status result = ''error'')
     \<and> fst (checkClickHouseHealth client w) = Inr (clickhouse result)"
  by (simp add: ping_def checkClickHouseHealth_eq)

text \<open>The theorem at the three clients of the repository's tests of the tool.\<close>

theorem ping_status_iff_reachable_witness:
  "(\<exists>w'. ping test_client (test_world (mockClient True)) =
      (Inr \<lparr>status = ''ok'', clickhouse = True, timestamp = ''2026-01-01T00:00:00.000Z''\<rparr>, w'))
   \<and> (\<exists>w'. ping test_client (test_world (mockClient False)) =
      (Inr \<lparr>status = ''error'', clickhouse = False, timestamp = ''2026-01-01T00:00:00.000Z''\<rparr>, w'))
   \<and> (\<exists>w'. ping test_client (test_world refusingClient) =
      (Inr \<lparr>status = ''error'', clickhouse = False, timestamp = ''2026-01-01T00:00:00.000Z''\<rparr>, w'))"
  using ping_status_iff_reachable [of test_client "test_world (mockClient True)"]
    ping_status_iff_reachable [of test_client "test_world (mockClient False)"]
    ping_status_iff_reachable [of test_client "test_world refusingClient"]
  by (simp add: ping_def checkClickHouseHealth_eq test_world_def refusingClient_def
      mockClient_def emit_def)

subsection \<open>The transport\<close>

text \<open>
  C5. A \<open>POST /mcp\<close> whose \<open>Authorization\<close> header is absent, or present with a value
  other than \<open>Bearer\<close>, a space and the configured secret (compared as whole strings),
  is answered \<open>401\<close>; the world is unchanged, so nothing was handed to the protocol layer
  and no round trip to the backing store was made.
\<close>

theorem post_mcp_unauthorized:
  assumes "req_method req = ''POST''" and "req_path req = ''/mcp''"
    and "authorization req = None \<or>
         (\<exists>v. authorization req = Some v \<and> v \<noteq> ''Bearer '' @ mcpApiKey config)"
  shows "handle_request protocol config req w = (Some \<lparr>status_code = 401, resp_body = NoBody\<rparr>, w)
         \<and> events_since w (snd (handle_request protocol config req w)) = []"
  using assms by (auto simp: handle_request_def events_since_def)

text \<open>
  The theorem at a missing header, a wrong key, a prefix of the secret and another spelling
  of the scheme; the exact header is accepted.
\<close>

theorem post_mcp_unauthorized_witness:
  "fst (handle_request echo_protocol (getTestConfig (Finite 0)) (post_mcp None)
         (test_world (mockClient True))) = Some \<lparr>status_code = 401, resp_body = NoBody\<rparr>
   \<and> fst (handle_request echo_protocol (getTestConfig (Finite 0)) (post_mcp (Some ''Bearer wrong-key''))
         (test_world (mockClient True))) = Some \<lparr>status_code = 401, resp_body = NoBody\<rparr>
   \<and> fst (handle_request echo_protocol (getTestConfig (Finite 0)) (post_mcp (Some ''Bearer test-secret''))
         (test_world (mockClient True))) = Some \<lparr>status_code = 401, resp_body = NoBody\<rparr>
   \<and> fst (handle_request echo_protocol (getTestConfig (Finite 0)) (post_mcp (Some ''bearer test-secret-key''))
         (test_world (mockClient True))) = Some \<lparr>status_code = 401, resp_body = NoBody\<rparr>
   \<and> fst (handle_request echo_protocol (getTestConfig (Finite 0)) (post_mcp (Some ''Bearer test-secret-key''))
         (test_world (mockClient True))) = Some \<lparr>status_code = 200, resp_body = ProtocolBody ''{}''\<rparr>"
  using
    post_mcp_unauthorized [of "post_mcp None" "getTestConfig (Finite 0)" echo_protocol
      "test_world (mockClient True)"]
    post_mcp_unauthorized [of "post_mcp (Some ''Bearer wrong-key'')" "getTestConfig (Finite 0)"
      echo_protocol "test_world (mockClient True)"]
    post_mcp_unauthorized [of "post_mcp (Some ''Bearer test-secret'')" "getTestConfig (Finite 0)"
      echo_protocol "test_world (mockClient True)"]
    post_mcp_unauthorized [of "post_mcp (Some ''bearer test-secret-key'')" "getTestConfig (Finite 0)"
      echo_protocol "test_world (mockClient True)"]
  by (simp add: post_mcp_def getTestConfig_def handle_request_def echo_protocol_def)

text \<open>
  C6. A \<open>GET /health\<close> is answered \<open>200\<close> with the status \<open>ok\<close>, whatever the
  \<open>Authorization\<close> header and whatever the state of the backing store.
\<close>

theorem get_health_ok:
  assumes "req_method req = ''GET''" and "req_path req = ''/health''"
  shows "handle_request protocol config req w =
           (Some \<lparr>status_code = 200, resp_body = StatusBody ''ok''\<rparr>, w)"
  using assms by (simp add: handle_request_def)

text \<open>The theorem without a header, while the backing store refuses connections.\<close>

theorem get_health_ok_witness:
  "handle_request echo_protocol (getTestConfig (Finite 0))
     \<lparr>req_method = ''GET'', req_path = ''/health'', authorization = None, req_body = []\<rparr>
     (test_world refusingClient)
   = (Some \<lparr>status_code = 200, resp_body = StatusBody ''ok''\<rparr>, test_world refusingClient)"
  by (rule get_health_ok) simp_all


subsection \<open>The startup gate\<close>

text \<open>
  C1. The loop of \<open>main\<close> is entered with \<open>i = 1\<close> and \<open>healthy = false\<close>. If the probe
  returns \<open>false\<close> on the attempts \<open>1\<close> to \<open>K - 1\<close> and \<open>true\<close> on attempt \<open>K\<close>, with
  \<open>1 \<le> K \<le> maxAttempts\<close>, the loop ends with \<open>healthy = true\<close> after exactly \<open>K\<close>
  calls of the probe; its attempts and waits are \<open>K - 1\<close> times an attempt followed by a
  wait of \<open>delayMs\<close>, then the last attempt, with no wait after it. In \<open>main\<close>, where
  \<open>maxAttempts = 30\<close> and \<open>delayMs = 2000\<close>, no further probe is made afterwards,
  the process does not exit in \<open>main\<close>, and \<open>startHttpServer\<close> is called.
\<close>

theorem startup_gate_succeeds_on_Kth_attempt:
  assumes "1 \<le> K" and "K \<le> maxAttempts"
    and "\<forall>j<K - 1. nth_probe client w (calls w + j) = Inr False"
    and "nth_probe client w (calls w + (K - 1)) = Inr True"
  shows "\<exists>w1. for_loop client maxAttempts delayMs 1 False w = (Inr True, w1)
      \<and> calls w1 = calls w + K
      \<and> gate_steps (events_since w w1) =
          concat (replicate (K - 1) [Attempt, Wait delayMs]) @ [Attempt]
      \<and> (loadConfig rt env = Inr config \<and> createClickHouseClient config = client \<and>
          maxAttempts = 30 \<and> delayMs = 2000 \<longrightarrow>
            (\<forall>code. fst (main rt env w) \<noteq> Exited code)
            \<and> calls (snd (main rt env w)) = calls w + K
            \<and> gate_steps (events_since w (snd (main rt env w))) =
                concat (replicate (K - 1) [Attempt, Wait 2000]) @ [Attempt]
            \<and> StartHttpServer config \<in> set (events_since w (snd (main rt env w))))"
proof -
  let ?evs = "concat (map (\<lambda>j. [ClientPing (pings w (calls w + j)),
                                 ConsoleLog (not_ready_msg (1 + j) maxAttempts delayMs),
                                 SetTimeout delayMs]) [0..<K - 1]) @
              [ClientPing (pings w (calls w + (K - 1))), ConsoleLog (healthy_msg (1 + (K - 1)))]"
  let ?w1 = "w\<lparr>calls := calls w + Suc (K - 1), trace := trace w @ ?evs\<rparr>"
  have "1 + (K - 1) \<le> maxAttempts" using assms(1,2) by simp
  then have run: "for_loop client maxAttempts delayMs 1 False w = (Inr True, ?w1)"
    using for_loop_succeeds [OF assms(3,4)] by simp
  have calls: "calls ?w1 = calls w + K" using assms(1) by simp
  have steps: "gate_steps ?evs = concat (replicate (K - 1) [Attempt, Wait delayMs]) @ [Attempt]"
    by (rule gate_steps_succeeds)
  have main: "(\<forall>code. fst (main rt env w) \<noteq> Exited code)
            \<and> calls (snd (main rt env w)) = calls w + K
            \<and> gate_steps (events_since w (snd (main rt env w))) =
                concat (replicate (K - 1) [Attempt, Wait 2000]) @ [Attempt]
            \<and> StartHttpServer config \<in> set (events_since w (snd (main rt env w)))"
    if "loadConfig rt env = Inr config" "createClickHouseClient config = client"
       "maxAttempts = 30" "delayMs = 2000"
  proof -
    have "for_loop (createClickHouseClient config) 30 2000 1 False w = (Inr True, ?w1)"
      using run that by simp
    note m = main_gate_passed [OF that(1) this]
    show ?thesis
      unfolding m using calls steps that(4)
      by (cases "listen ?w1 config")
         (simp_all add: emit_def console_log_def events_since_def gate_steps_append)
  qed
  show ?thesis
    using run calls steps main by (intro exI [of _ ?w1]) (simp del: replicate.simps)
qed

text \<open>
  The theorem at a backing store that answers on the third attempt, with the configuration
  of the repository's test.
\<close>

theorem startup_gate_succeeds_on_Kth_attempt_witness:
  "fst (for_loop (createClickHouseClient test_config) 30 2000 1 False (test_world up_on_third))
     = Inr True
   \<and> calls (snd (for_loop (createClickHouseClient test_config) 30 2000 1 False
                  (test_world up_on_third))) = 3
   \<and> gate_steps (events_since (test_world up_on_third)
         (snd (for_loop (createClickHouseClient test_config) 30 2000 1 False
                (test_world up_on_third))))
       = [Attempt, Wait 2000, Attempt, Wait 2000, Attempt]
   \<and> calls (snd (main test_js test_env (test_world up_on_third))) = 3
   \<and> gate_steps (events_since (test_world up_on_third)
         (snd (main test_js test_env (test_world up_on_third))))
       = [Attempt, Wait 2000, Attempt, Wait 2000, Attempt]
   \<and> StartHttpServer test_config
       \<in> set (events_since (test_world up_on_third)
               (snd (main test_js test_env (test_world up_on_third))))"
proof -
  let ?w = "test_world up_on_third"
  let ?c = "createClickHouseClient test_config"
  have h1: "(1::nat) \<le> 3" and h2: "(3::nat) \<le> 30" by simp_all
  have h3: "\<forall>j<3 - 1. nth_probe ?c ?w (calls ?w + j) = Inr False"
    by (simp add: nth_probe_eq test_world_def up_on_third_def)
  have h4: "nth_probe ?c ?w (calls ?w + (3 - 1)) = Inr True"
    by (simp add: nth_probe_eq test_world_def up_on_third_def)
  have calls0: "calls ?w = 0" by (simp add: test_world_def)
  have r: "concat (replicate (3 - 1) [Attempt, Wait 2000]) @ [Attempt]
           = [Attempt, Wait 2000, Attempt, Wait 2000, Attempt]"
    by (simp add: numeral_2_eq_2)
  show ?thesis
    using startup_gate_succeeds_on_Kth_attempt [OF h1 h2 h3 h4, of 2000 test_js test_env test_config]
      loadConfig_test_env
    unfolding r calls0 by auto
qed

text \<open>
  C2. If the probe returns \<open>false\<close> on every call, the loop ends with \<open>healthy = false\<close>
  after exactly \<open>maxAttempts\<close> calls, with a wait of \<open>delayMs\<close> between two consecutive
  attempts and none after the last. \<open>main\<close>, with its 30 attempts, then prints
  \<open>ClickHouse not reachable after 30 attempts, exiting\<close> on the error console and exits
  with code 1; these are the last two effects of the process.
\<close>

theorem startup_gate_exhausts:
  assumes "\<forall>n. nth_probe client w n = Inr False"
  shows "\<exists>w1. for_loop client maxAttempts delayMs 1 False w = (Inr False, w1)
      \<and> calls w1 = calls w + maxAttempts
      \<and> gate_steps (events_since w w1) =
          (if maxAttempts = 0 then []
           else concat (replicate (maxAttempts - 1) [Attempt, Wait delayMs]) @ [Attempt])
      \<and> (loadConfig rt env = Inr config \<and> createClickHouseClient config = client \<longrightarrow>
           (\<exists>evs. main rt env w =
                    (Exited 1,
                     w\<lparr>calls := calls w + 30,
                       trace := trace w @ evs @
                         [ConsoleError ''ClickHouse not reachable after 30 attempts, exiting'' None,
                          ProcessExit 1]\<rparr>)
                \<and> index_ts rt env w = main rt env w
                \<and> gate_steps evs = concat (replicate 29 [Attempt, Wait 2000]) @ [Attempt]))"
proof -
  let ?evs = "\<lambda>M d. concat (map (\<lambda>j. ClientPing (pings w (calls w + j)) #
                            (if 1 + j < M
                             then [ConsoleLog (not_ready_msg (1 + j) M d), SetTimeout d]
                             else [])) [0..<M])"
  let ?w1 = "\<lambda>M d. w\<lparr>calls := calls w + M, trace := trace w @ ?evs M d\<rparr>"
  have run: "for_loop client M d 1 False w = (Inr False, ?w1 M d)" for M d
    using for_loop_exhausts [of M client w 1 M d False] assms by simp
  have steps: "gate_steps (?evs M d) =
      (if M = 0 then [] else concat (replicate (M - 1) [Attempt, Wait d]) @ [Attempt])" for M d
    using gate_steps_exhausts [of 1 M M "\<lambda>j. pings w (calls w + j)"
                                  "\<lambda>j. not_ready_msg (1 + j) M d" d]
    by (cases "M = 0") simp_all
  have main: "\<exists>evs. main rt env w =
                    (Exited 1,
                     w\<lparr>calls := calls w + 30,
                       trace := trace w @ evs @
                         [ConsoleError ''ClickHouse not reachable after 30 attempts, exiting'' None,
                          ProcessExit 1]\<rparr>)
                \<and> index_ts rt env w = main rt env w
                \<and> gate_steps evs = concat (replicate 29 [Attempt, Wait 2000]) @ [Attempt]"
    if "loadConfig rt env = Inr config" "createClickHouseClient config = client"
  proof -
    have "for_loop (createClickHouseClient config) 30 2000 1 False w = (Inr False, ?w1 30 2000)"
      using run [of 30 2000] that(2) by simp
    note m = main_gate_failed [OF that(1) this]
    have "gate_steps (?evs 30 2000) = concat (replicate 29 [Attempt, Wait 2000]) @ [Attempt]"
      using steps [of 30 2000] by simp
    then show ?thesis
      by (intro exI [of _ "?evs 30 2000"])
         (simp add: m index_ts_def process_exit_def console_error_def emit_def
            not_reachable_msg_30 del: replicate.simps upt.simps)
  qed
  show ?thesis
    using run [of maxAttempts delayMs] steps [of maxAttempts delayMs] main
    by (intro exI [of _ "?w1 maxAttempts delayMs"]) (simp del: replicate.simps upt.simps)
qed

text \<open>
  The theorem at the specification's scenario (three attempts, 5 ms apart) and at \<open>main\<close>
  with a backing store that refuses every connection.
\<close>

theorem startup_gate_exhausts_witness:
  "fst (for_loop test_client 3 5 1 False (test_world (mockClient False))) = Inr False
   \<and> calls (snd (for_loop test_client 3 5 1 False (test_world (mockClient False)))) = 3
   \<and> gate_steps (events_since (test_world (mockClient False))
         (snd (for_loop test_client 3 5 1 False (test_world (mockClient False)))))
       = [Attempt, Wait 5, Attempt, Wait 5, Attempt]
   \<and> fst (main test_js test_env (test_world refusingClient)) = Exited 1
   \<and> calls (snd (main test_js test_env (test_world refusingClient))) = 30
   \<and> last (trace (snd (main test_js test_env (test_world refusingClient)))) = ProcessExit 1"
proof -
  have h1: "\<forall>n. nth_probe test_client (test_world (mockClient False)) n = Inr False"
    by (simp add: nth_probe_eq test_world_def mockClient_def)
  have h2: "\<forall>n. nth_probe (createClickHouseClient test_config) (test_world refusingClient) n
              = Inr False"
    by (simp add: nth_probe_eq test_world_def refusingClient_def)
  have calls0: "calls (test_world (mockClient False)) = 0" "calls (test_world refusingClient) = 0"
    "trace (test_world refusingClient) = []"
    by (simp_all add: test_world_def)
  have r: "replicate 2 [Attempt, Wait 5] = [[Attempt, Wait 5], [Attempt, Wait 5]]"
    by (simp add: numeral_2_eq_2)
  have small: "fst (for_loop test_client 3 5 1 False (test_world (mockClient False))) = Inr False
   \<and> calls (snd (for_loop test_client 3 5 1 False (test_world (mockClient False)))) = 3
   \<and> gate_steps (events_since (test_world (mockClient False))
         (snd (for_loop test_client 3 5 1 False (test_world (mockClient False)))))
       = [Attempt, Wait 5, Attempt, Wait 5, Attempt]"
    using startup_gate_exhausts [OF h1, of 3 5 test_js Map.empty test_config]
    unfolding calls0 by (auto simp: r)
  have full: "fst (main test_js test_env (test_world refusingClient)) = Exited 1
   \<and> calls (snd (main test_js test_env (test_world refusingClient))) = 30
   \<and> last (trace (snd (main test_js test_env (test_world refusingClient)))) = ProcessExit 1"
    using startup_gate_exhausts [OF h2, of 30 2000 test_js test_env test_config]
      loadConfig_test_env
    unfolding calls0 by auto
  show ?thesis using small full by simp
qed


subsection \<open>The whole process\<close>

text \<open>
  Every run of the process adds a list of events to the trace; the lemmas below describe
  that list in each of the ways \<open>main\<close> can end.
\<close>

lemma listen_after_success:
  assumes "\<forall>e\<in>set xs. \<not> is_StartHttpServer e"
    and "\<exists>e\<in>set xs. is_successful_ping e"
    and "\<forall>e\<in>set zs. \<not> is_StartHttpServer e"
  shows "\<forall>j<length (xs @ y # zs). is_StartHttpServer ((xs @ y # zs) ! j) \<longrightarrow>
           (\<exists>i<j. is_successful_ping ((xs @ y # zs) ! i))"
proof (intro allI impI)
  fix j
  assume j: "j < length (xs @ y # zs)" and s: "is_StartHttpServer ((xs @ y # zs) ! j)"
  have "\<not> j < length xs"
  proof
    assume "j < length xs"
    then have "(xs @ y # zs) ! j \<in> set xs" by (simp add: nth_append)
    with assms(1) s show False by blast
  qed
  moreover have "\<not> length xs < j"
  proof
    assume a: "length xs < j"
    then obtain k where k: "j = length xs + Suc k"
      by (metis less_imp_Suc_add add_Suc_right)
    with j have "k < length zs" by simp
    then have "(xs @ y # zs) ! j \<in> set zs" by (simp add: k nth_append)
    with assms(3) s show False by blast
  qed
  ultimately have eq: "j = length xs" by simp
  from assms(2) obtain i where i: "i < length xs" "is_successful_ping (xs ! i)"
    by (auto simp: in_set_conv_nth)
  then have "is_successful_ping ((xs @ y # zs) ! i)" by (simp add: nth_append)
  with i(1) eq show "\<exists>i<j. is_successful_ping ((xs @ y # zs) ! i)" by blast
qed

lemma no_listen:
  "\<forall>e\<in>set evs. \<not> is_StartHttpServer e \<Longrightarrow>
   \<forall>j<length evs. is_StartHttpServer (evs ! j) \<longrightarrow> (\<exists>i<j. is_successful_ping (evs ! i))"
  by simp

lemma index_ts_run:
  "\<exists>evs. snd (index_ts rt env w) =
           w\<lparr>calls := calls w + length (filter is_ClientPing evs), trace := trace w @ evs\<rparr>
     \<and> length (filter is_ClientPing evs) \<le> 30
     \<and> set (gate_steps evs) \<subseteq> {Attempt, Wait 2000}
     \<and> (\<forall>j<length evs. is_StartHttpServer (evs ! j) \<longrightarrow> (\<exists>i<j. is_successful_ping (evs ! i)))
     \<and> ((\<exists>err. loadConfig rt env = Inl err) \<longrightarrow>
          fst (index_ts rt env w) = Exited 1 \<and>
          (\<forall>e\<in>set evs. \<not> is_StartHttpServer e \<and> \<not> is_ClientPing e))
     \<and> (\<forall>config. loadConfig rt env = Inr config \<and>
            fst (for_loop (createClickHouseClient config) 30 2000 1 False w) \<noteq> Inr True \<longrightarrow>
          fst (index_ts rt env w) = Exited 1 \<and> (\<forall>e\<in>set evs. \<not> is_StartHttpServer e))"
proof (cases "loadConfig rt env")
  case (Inl err)
  let ?evs = "[ConsoleError ''Fatal error:'' (Some err), ProcessExit 1]"
  have "index_ts rt env w = (Exited 1, w\<lparr>trace := trace w @ ?evs\<rparr>)"
    by (simp add: index_ts_def main_config_error [OF Inl] process_exit_def console_error_def
        emit_def)
  moreover have "\<forall>j<length ?evs. is_StartHttpServer (?evs ! j) \<longrightarrow>
                   (\<exists>i<j. is_successful_ping (?evs ! i))"
    by (rule no_listen) simp
  ultimately show ?thesis
    using Inl by (intro exI [of _ ?evs]) (simp del: length_Cons)
next
  case (Inr config)
  let ?client = "createClickHouseClient config"
  obtain evs1 b where
    run: "for_loop ?client 30 2000 1 False w =
            (Inr b, w\<lparr>calls := calls w + length (filter is_ClientPing evs1),
                      trace := trace w @ evs1\<rparr>)"
    and bound: "length (filter is_ClientPing evs1) \<le> Suc 30 - 1"
    and steps: "set (gate_steps evs1) \<subseteq> {Attempt, Wait 2000}"
    and nostart: "\<forall>e\<in>set evs1. \<not> is_StartHttpServer e"
    and good: "b \<longrightarrow> False \<or> (\<exists>e\<in>set evs1. is_successful_ping e)"
    using for_loop_trace [of ?client 30 2000 1 False w] by blast
  let ?w1 = "w\<lparr>calls := calls w + length (filter is_ClientPing evs1), trace := trace w @ evs1\<rparr>"
  have bound': "length (filter is_ClientPing evs1) \<le> 30" using bound by simp
  show ?thesis
  proof (cases b)
    case False
    let ?evs = "evs1 @ [ConsoleError (not_reachable_msg 30) None, ProcessExit 1]"
    have "main rt env w = (Exited 1, process_exit 1 (console_error (not_reachable_msg 30) None ?w1))"
      using run False by (intro main_gate_failed [OF Inr]) simp
    then have "index_ts rt env w = (Exited 1, w\<lparr>calls := calls w + length (filter is_ClientPing evs1),
                      trace := trace w @ ?evs\<rparr>)"
      by (simp add: index_ts_def process_exit_def console_error_def emit_def)
    moreover have "\<forall>e\<in>set ?evs. \<not> is_StartHttpServer e" using nostart by simp
    ultimately show ?thesis
      using Inr bound' steps no_listen [of ?evs]
      by (intro exI [of _ ?evs]) (simp add: gate_steps_append)
  next
    case True
    then have ok: "\<exists>e\<in>set evs1. is_successful_ping e" using good by simp
    have gate: "fst (for_loop ?client 30 2000 1 False w) = Inr True"
      using run True by simp
    have m: "main rt env w =
       (case listen ?w1 config of
          Some err \<Rightarrow> (Rejected err, emit (StartHttpServer config) ?w1)
        | None \<Rightarrow> (Resolved, console_log (listening_msg rt config)
                               (emit (StartHttpServer config) ?w1)))"
      using run True by (intro main_gate_passed [OF Inr]) simp
    show ?thesis
    proof (cases "listen ?w1 config")
      case None
      let ?rest = "[ConsoleLog (listening_msg rt config)]"
      let ?evs = "evs1 @ StartHttpServer config # ?rest"
      have "index_ts rt env w = (Resolved, w\<lparr>calls := calls w + length (filter is_ClientPing evs1),
                      trace := trace w @ ?evs\<rparr>)"
        using None by (simp add: index_ts_def m console_log_def emit_def)
      moreover have "\<forall>e\<in>set ?rest. \<not> is_StartHttpServer e" by simp
      ultimately show ?thesis
        using Inr bound' steps gate listen_after_success [OF nostart ok, of ?rest "StartHttpServer config"]
        by (intro exI [of _ ?evs]) (simp add: gate_steps_append)
    next
      case (Some err)
      let ?rest = "[ConsoleError ''Fatal error:'' (Some err), ProcessExit 1]"
      let ?evs = "evs1 @ StartHttpServer config # ?rest"
      have "index_ts rt env w = (Exited 1, w\<lparr>calls := calls w + length (filter is_ClientPing evs1),
                      trace := trace w @ ?evs\<rparr>)"
        using Some
        by (simp add: index_ts_def m process_exit_def console_error_def emit_def)
      moreover have "\<forall>e\<in>set ?rest. \<not> is_StartHttpServer e" by simp
      ultimately show ?thesis
        using Inr bound' steps gate listen_after_success [OF nostart ok, of ?rest "StartHttpServer config"]
        by (intro exI [of _ ?evs]) (simp add: gate_steps_append)
    qed
  qed
qed

lemma loadConfig_env_with_retry_settings:
  "loadConfig test_js env_with_retry_settings = Inr test_config"
  by (simp add: env_with_retry_settings_def test_env_def test_js_def test_config_def
      loadConfig_def configSchema_parse_def clickhouseUrl_schema_def mcpApiKey_schema_def
      mcpPort_schema_def)

lemma loadConfig_no_env: "loadConfig test_js Map.empty = Inl (ZodError [(''mcpApiKey'', Required)])"
  by (simp add: loadConfig_def configSchema_parse_def clickhouseUrl_schema_def
      mcpApiKey_schema_def mcpPort_schema_def)

lemma main_exhausts:
  assumes "loadConfig rt env = Inr config"
    and "\<forall>n. nth_probe (createClickHouseClient config) w n = Inr False"
  shows "\<exists>evs. index_ts rt env w =
           (Exited 1,
            w\<lparr>calls := calls w + 30,
              trace := trace w @ evs @
                [ConsoleError ''ClickHouse not reachable after 30 attempts, exiting'' None,
                 ProcessExit 1]\<rparr>)
         \<and> fst (for_loop (createClickHouseClient config) 30 2000 1 False w) = Inr False
         \<and> gate_steps evs = concat (replicate 29 [Attempt, Wait 2000]) @ [Attempt]"
proof -
  let ?evs = "concat (map (\<lambda>j. ClientPing (pings w (calls w + j)) #
                            (if 1 + j < 30
                             then [ConsoleLog (not_ready_msg (1 + j) 30 2000), SetTimeout 2000]
                             else [])) [0..<30])"
  let ?w1 = "w\<lparr>calls := calls w + 30, trace := trace w @ ?evs\<rparr>"
  have run: "for_loop (createClickHouseClient config) 30 2000 1 False w = (Inr False, ?w1)"
    using for_loop_exhausts [of 30 "createClickHouseClient config" w 1 30 2000 False] assms(2)
    by simp
  note m = main_gate_failed [OF assms(1) run]
  have "gate_steps ?evs = concat (replicate (30 - 1) [Attempt, Wait 2000]) @ [Attempt]"
    by (rule gate_steps_exhausts) simp_all
  then have "gate_steps ?evs = concat (replicate 29 [Attempt, Wait 2000]) @ [Attempt]"
    by simp
  then show ?thesis
    using run
    by (intro exI [of _ ?evs])
       (simp add: m index_ts_def process_exit_def console_error_def emit_def
          not_reachable_msg_30 del: replicate.simps upt.simps)
qed

text \<open>A run, evaluated: the backing store answers on the third attempt.\<close>

lemma run_up_on_third:
  "index_ts test_js test_env (test_world up_on_third) =
     (Resolved,
      \<lparr>pings = up_on_third, calls = 3, listen = (\<lambda>config. None),
       now = ''2026-01-01T00:00:00.000Z'',
       trace =
         [ClientPing (Inr \<lparr>success = False\<rparr>),
          ConsoleLog ''ClickHouse not ready (attempt 1/30), retrying in 2000ms...'',
          SetTimeout 2000,
          ClientPing (Inr \<lparr>success = False\<rparr>),
          ConsoleLog ''ClickHouse not ready (attempt 2/30), retrying in 2000ms...'',
          SetTimeout 2000,
          ClientPing (Inr \<lparr>success = True\<rparr>),
          ConsoleLog ''ClickHouse healthy after 3 attempt(s)'',
          StartHttpServer test_config,
          ConsoleLog ''MCP server listening on port 4000'']\<rparr>)"
proof -
  have port: "js_String test_js (mcpPort test_config) = ''4000''"
    by (simp add: test_js_def test_config_def)
  show ?thesis
    by (simp add: index_ts_def main_def loadConfig_test_env for_loop.simps
        checkClickHouseHealth_def client_ping_def emit_def console_log_def sleep_def
        test_world_def up_on_third_def startHttpServer_def createMcpServer_def
        healthy_msg_def not_ready_msg_def listening_msg_def show_nat.simps port)
qed

text \<open>
  C8. In every run of the process, a call of \<open>startHttpServer\<close> is preceded by a round
  trip of the native ping that resolved with success, that is by a probe attempt that
  returned \<open>true\<close>. If \<open>loadConfig\<close> throws, the process exits with code 1 without
  calling \<open>startHttpServer\<close> and without contacting the backing store; if the loop of the
  gate does not end with \<open>healthy = true\<close>, the process exits with code 1 without
  calling \<open>startHttpServer\<close>.
\<close>

theorem listener_only_after_gate:
  "\<exists>evs. trace (snd (index_ts rt env w)) = trace w @ evs
     \<and> (\<forall>j<length evs. is_StartHttpServer (evs ! j) \<longrightarrow> (\<exists>i<j. is_successful_ping (evs ! i)))
     \<and> ((\<exists>err. loadConfig rt env = Inl err) \<longrightarrow>
          fst (index_ts rt env w) = Exited 1 \<and>
          (\<forall>e\<in>set evs. \<not> is_StartHttpServer e \<and> \<not> is_ClientPing e))
     \<and> (\<forall>config. loadConfig rt env = Inr config \<and>
            fst (for_loop (createClickHouseClient config) 30 2000 1 False w) \<noteq> Inr True \<longrightarrow>
          fst (index_ts rt env w) = Exited 1 \<and> (\<forall>e\<in>set evs. \<not> is_StartHttpServer e))"
proof -
  obtain evs where
    w': "snd (index_ts rt env w) =
           w\<lparr>calls := calls w + length (filter is_ClientPing evs), trace := trace w @ evs\<rparr>"
    and rest: "(\<forall>j<length evs. is_StartHttpServer (evs ! j) \<longrightarrow> (\<exists>i<j. is_successful_ping (evs ! i)))
     \<and> ((\<exists>err. loadConfig rt env = Inl err) \<longrightarrow>
          fst (index_ts rt env w) = Exited 1 \<and>
          (\<forall>e\<in>set evs. \<not> is_StartHttpServer e \<and> \<not> is_ClientPing e))
     \<and> (\<forall>config. loadConfig rt env = Inr config \<and>
            fst (for_loop (createClickHouseClient config) 30 2000 1 False w) \<noteq> Inr True \<longrightarrow>
          fst (index_ts rt env w) = Exited 1 \<and> (\<forall>e\<in>set evs. \<not> is_StartHttpServer e))"
    using index_ts_run [of rt env w] by blast
  have "trace (snd (index_ts rt env w)) = trace w @ evs"
    unfolding w' by simp
  with rest show ?thesis by blast
qed

text \<open>
  The theorem at a run that starts the listener (event 8, after the successful ping, event
  6), at an empty environment, and at a backing store that refuses every connection.
\<close>

theorem listener_only_after_gate_witness:
  "is_StartHttpServer (events_since (test_world up_on_third)
       (snd (index_ts test_js test_env (test_world up_on_third))) ! 8)
   \<and> is_successful_ping (events_since (test_world up_on_third)
       (snd (index_ts test_js test_env (test_world up_on_third))) ! 6)
   \<and> fst (index_ts test_js Map.empty (test_world (mockClient True))) = Exited 1
   \<and> filter is_StartHttpServer (events_since (test_world (mockClient True))
       (snd (index_ts test_js Map.empty (test_world (mockClient True))))) = []
   \<and> fst (index_ts test_js test_env (test_world refusingClient)) = Exited 1
   \<and> filter is_StartHttpServer (events_since (test_world refusingClient)
       (snd (index_ts test_js test_env (test_world refusingClient)))) = []"
proof -
  have a: "is_StartHttpServer (events_since (test_world up_on_third)
       (snd (index_ts test_js test_env (test_world up_on_third))) ! 8)
   \<and> is_successful_ping (events_since (test_world up_on_third)
       (snd (index_ts test_js test_env (test_world up_on_third))) ! 6)"
    using listener_only_after_gate [of test_js test_env "test_world up_on_third"]
    unfolding run_up_on_third
    by (simp add: events_since_def test_world_def)
  have b: "fst (index_ts test_js Map.empty (test_world (mockClient True))) = Exited 1
   \<and> filter is_StartHttpServer (events_since (test_world (mockClient True))
       (snd (index_ts test_js Map.empty (test_world (mockClient True))))) = []"
    using listener_only_after_gate [of test_js Map.empty "test_world (mockClient True)"]
      loadConfig_no_env
    by (auto simp: events_since_def filter_empty_conv)
  have down: "\<forall>n. nth_probe (createClickHouseClient test_config) (test_world refusingClient) n
              = Inr False"
    by (simp add: nth_probe_eq test_world_def refusingClient_def)
  have "fst (for_loop (createClickHouseClient test_config) 30 2000 1 False
              (test_world refusingClient)) \<noteq> Inr True"
    using main_exhausts [OF loadConfig_test_env down] by auto
  then have c: "fst (index_ts test_js test_env (test_world refusingClient)) = Exited 1
   \<and> filter is_StartHttpServer (events_since (test_world refusingClient)
       (snd (index_ts test_js test_env (test_world refusingClient)))) = []"
    using listener_only_after_gate [of test_js test_env "test_world refusingClient"]
      loadConfig_test_env
    by (auto simp: events_since_def filter_empty_conv)
  show ?thesis using a b c by simp
qed

text \<open>
  C9, as the code has it. The retry policy of the gate is 30 attempts 2000 ms apart, and
  both values are constants written in \<open>main\<close>: for every runtime, every environment and
  every state of the outside, a run makes at most 30 probe attempts and every wait is
  2000 ms; when the configuration is valid and the probe returns \<open>false\<close> on every call,
  it makes exactly 30 attempts with 29 waits of 2000 ms between them. Nothing that
  \<open>main\<close> reads changes the two values.
\<close>

theorem retry_policy_is_fixed_in_main:
  "\<exists>evs. snd (index_ts rt env w) =
           w\<lparr>calls := calls w + length (filter is_ClientPing evs), trace := trace w @ evs\<rparr>
     \<and> length (filter is_ClientPing evs) \<le> 30
     \<and> set (gate_steps evs) \<subseteq> {Attempt, Wait 2000}
     \<and> (\<forall>config. loadConfig rt env = Inr config \<and>
            (\<forall>n. nth_probe (createClickHouseClient config) w n = Inr False) \<longrightarrow>
          length (filter is_ClientPing evs) = 30 \<and>
          gate_steps evs = concat (replicate 29 [Attempt, Wait 2000]) @ [Attempt])"
proof -
  obtain evs where
    w': "snd (index_ts rt env w) =
           w\<lparr>calls := calls w + length (filter is_ClientPing evs), trace := trace w @ evs\<rparr>"
    and bound: "length (filter is_ClientPing evs) \<le> 30"
    and steps: "set (gate_steps evs) \<subseteq> {Attempt, Wait 2000}"
    using index_ts_run [of rt env w] by blast
  have "length (filter is_ClientPing evs) = 30 \<and>
        gate_steps evs = concat (replicate 29 [Attempt, Wait 2000]) @ [Attempt]"
    if cfg: "loadConfig rt env = Inr config"
      and down: "\<forall>n. nth_probe (createClickHouseClient config) w n = Inr False" for config
  proof -
    obtain evs2 where
      run: "index_ts rt env w =
           (Exited 1,
            w\<lparr>calls := calls w + 30,
              trace := trace w @ evs2 @
                [ConsoleError ''ClickHouse not reachable after 30 attempts, exiting'' None,
                 ProcessExit 1]\<rparr>)"
      and steps2: "gate_steps evs2 = concat (replicate 29 [Attempt, Wait 2000]) @ [Attempt]"
      using main_exhausts [OF cfg down] by blast
    let ?all = "evs2 @ [ConsoleError ''ClickHouse not reachable after 30 attempts, exiting'' None,
                        ProcessExit 1]"
    have "w\<lparr>calls := calls w + length (filter is_ClientPing evs), trace := trace w @ evs\<rparr>
          = w\<lparr>calls := calls w + 30, trace := trace w @ ?all\<rparr>"
      using w' run by simp
    then have "calls (w\<lparr>calls := calls w + length (filter is_ClientPing evs),
                        trace := trace w @ evs\<rparr>)
               = calls (w\<lparr>calls := calls w + 30, trace := trace w @ ?all\<rparr>)"
      and "trace (w\<lparr>calls := calls w + length (filter is_ClientPing evs),
                        trace := trace w @ evs\<rparr>)
               = trace (w\<lparr>calls := calls w + 30, trace := trace w @ ?all\<rparr>)"
      by simp_all
    then have "length (filter is_ClientPing evs) = 30" and "evs = ?all"
      by simp_all
    then show ?thesis
      using steps2 by (simp add: gate_steps_append del: replicate.simps)
  qed
  with w' bound steps show ?thesis by blast
qed

text \<open>The theorem at a backing store that refuses every connection.\<close>

theorem retry_policy_is_fixed_in_main_witness:
  "calls (snd (index_ts test_js test_env (test_world refusingClient))) = 30
   \<and> gate_steps (events_since (test_world refusingClient)
        (snd (index_ts test_js test_env (test_world refusingClient))))
      = concat (replicate 29 [Attempt, Wait 2000]) @ [Attempt]"
proof -
  have down: "\<forall>n. nth_probe (createClickHouseClient test_config) (test_world refusingClient) n
              = Inr False"
    by (simp add: nth_probe_eq test_world_def refusingClient_def)
  have calls0: "calls (test_world refusingClient) = 0"
    by (simp add: test_world_def)
  show ?thesis
    using retry_policy_is_fixed_in_main [of test_js test_env "test_world refusingClient"]
      loadConfig_test_env down
    unfolding calls0 by (auto simp del: replicate.simps)
qed

text \<open>
  C9 as stated, that the two values are parameters that can be configured, fails: with the
  settings of the specification's scenario in the environment and a probe that always
  returns \<open>false\<close>, the gate still makes 30 attempts, not 3, and waits 2000 ms, never 5.
\<close>

theorem retry_policy_configurable_counterexample:
  "calls (snd (index_ts test_js env_with_retry_settings (test_world (mockClient False)))) = 30
   \<and> calls (snd (index_ts test_js env_with_retry_settings (test_world (mockClient False)))) \<noteq> 3
   \<and> set (gate_steps (events_since (test_world (mockClient False))
        (snd (index_ts test_js env_with_retry_settings (test_world (mockClient False))))))
      = {Attempt, Wait 2000}
   \<and> Wait 5 \<notin> set (gate_steps (events_since (test_world (mockClient False))
        (snd (index_ts test_js env_with_retry_settings (test_world (mockClient False))))))"
proof -
  have down: "\<forall>n. nth_probe (createClickHouseClient test_config) (test_world (mockClient False)) n
              = Inr False"
    by (simp add: nth_probe_eq test_world_def mockClient_def)
  have calls0: "calls (test_world (mockClient False)) = 0"
    by (simp add: test_world_def)
  obtain evs where
    run: "index_ts test_js env_with_retry_settings (test_world (mockClient False)) =
           (Exited 1,
            test_world (mockClient False)
             \<lparr>calls := calls (test_world (mockClient False)) + 30,
              trace := trace (test_world (mockClient False)) @ evs @
                [ConsoleError ''ClickHouse not reachable after 30 attempts, exiting'' None,
                 ProcessExit 1]\<rparr>)"
    and steps: "gate_steps evs = concat (replicate 29 [Attempt, Wait 2000]) @ [Attempt]"
    using main_exhausts [OF loadConfig_env_with_retry_settings down] by blast
  have "gate_steps (events_since (test_world (mockClient False))
        (snd (index_ts test_js env_with_retry_settings (test_world (mockClient False)))))
        = concat (replicate 29 [Attempt, Wait 2000]) @ [Attempt]"
    unfolding run using steps by (simp add: gate_steps_append del: replicate.simps)
  moreover have "set (concat (replicate 29 [Attempt, Wait 2000]) @ [Attempt]) = {Attempt, Wait 2000}"
    by auto
  ultimately show ?thesis
    unfolding run calls0 by simp
qed

end
